theory Spec2Isabelle
  imports Complex_Main
begin

section \<open>Python values, exceptions and strings\<close>

text \<open>
  The program is one Python module. Its functions are embedded as HOL functions of the
  same names. Python \<open>float\<close> values are modelled as real numbers with exact arithmetic
  (no rounding, no underflow, no signed zero); the special values \<open>inf\<close> and \<open>nan\<close>
  appear only where the source can meet them, as results of \<open>float(text)\<close> for a text
  such as \<open>inf\<close> or \<open>nan\<close> or for a number too large for a float. The theorems below
  are statements about this exact arithmetic. Exceptions are values of the type \<open>exn\<close>;
  a function that may raise returns a sum or a pair that names the exception.
\<close>

datatype exn = ValueError | OverflowError | ZeroDivisionError | SerialException

datatype pyfloat = Finite real | PosInf | NegInf | NaN

text \<open>An argument of the acquisition callback: \<open>None\<close> or a float.\<close>

datatype pyval = PyNone | PyFloat real

text \<open>Truthiness of a callback argument, as \<open>if lon and lat\<close> tests it.\<close>

definition truthy :: "pyval \<Rightarrow> bool" where
  "truthy v = (case v of PyNone \<Rightarrow> False | PyFloat x \<Rightarrow> x \<noteq> 0)"

text \<open>
  \<open>str.strip()\<close> removes the characters for which \<open>str.isspace\<close> holds; in the ASCII
  range these are the codes 9 to 13, 28 to 31 and 32.
\<close>

definition py_isspace :: "char \<Rightarrow> bool" where
  "py_isspace c = (c \<in> set [CHR 0x09, CHR 0x0A, CHR 0x0B, CHR 0x0C, CHR 0x0D,
                              CHR 0x1C, CHR 0x1D, CHR 0x1E, CHR 0x1F, CHR '' ''])"

definition py_strip :: "string \<Rightarrow> string" where
  "py_strip s = rev (dropWhile py_isspace (rev (dropWhile py_isspace s)))"

definition startswith :: "string \<Rightarrow> string \<Rightarrow> bool" where
  "startswith s p = (take (length p) s = p)"

text \<open>\<open>s.split(sep)\<close> for a one-character separator: the empty string gives \<open>['']\<close>.\<close>

fun py_split :: "char \<Rightarrow> string \<Rightarrow> string list" where
  "py_split sep [] = [[]]"
| "py_split sep (c # cs) =
     (if c = sep then [] # py_split sep cs
      else (case py_split sep cs of w # ws \<Rightarrow> (c # w) # ws | [] \<Rightarrow> [[c]]))"

text \<open>
  \<open>bytes.decode('ascii', errors='replace')\<close>: a byte below 128 is its character, any
  other byte becomes the replacement character U+FFFD, for which the code 255 stands
  here (it is no white space, digit, letter or comma).
\<close>

definition decode_ascii_replace :: "char list \<Rightarrow> string" where
  "decode_ascii_replace bs = map (\<lambda>b. if (of_char b :: nat) < 128 then b else CHR 0xFF) bs"

text \<open>Decimal digits of a natural number, as \<open>str(n)\<close> and an f-string print an \<open>int\<close>.\<close>

fun str_nat :: "nat \<Rightarrow> string" where
  "str_nat n =
     (if n < 10 then [''0123456789'' ! n]
      else str_nat (n div 10) @ [''0123456789'' ! (n mod 10)])"

declare str_nat.simps [simp del]

section \<open>The builtin \<open>float(text)\<close>\<close>

text \<open>
  \<open>float\<close> strips white space, reads an optional sign and then \<open>inf\<close>, \<open>infinity\<close> or
  \<open>nan\<close> in any case, or a decimal number: digits with single underscores between
  them, an optional fraction and an optional exponent. Anything else raises
  \<open>ValueError\<close>. A value too large for a float is an infinity.
\<close>

definition is_digit :: "char \<Rightarrow> bool" where
  "is_digit c = (48 \<le> (of_char c :: nat) \<and> (of_char c :: nat) \<le> 57)"

definition py_lower :: "char \<Rightarrow> char" where
  "py_lower c =
     (case map_of (zip ''ABCDEFGHIJKLMNOPQRSTUVWXYZ'' ''abcdefghijklmnopqrstuvwxyz'') c of
        Some l \<Rightarrow> l
      | None \<Rightarrow> c)"

fun digitpart_ok :: "string \<Rightarrow> bool" where
  "digitpart_ok [] = False"
| "digitpart_ok [c] = is_digit c"
| "digitpart_ok (c # d # cs) =
     (is_digit c \<and> (if d = CHR ''_'' then digitpart_ok cs else digitpart_ok (d # cs)))"

definition digits_value :: "string \<Rightarrow> nat" where
  "digits_value s =
     foldl (\<lambda>acc c. 10 * acc + ((of_char c :: nat) - 48)) 0 (filter is_digit s)"

definition parse_exponent :: "string \<Rightarrow> int option" where
  "parse_exponent s =
     (let neg = (s \<noteq> [] \<and> hd s = CHR ''-'');
          u = (if s \<noteq> [] \<and> (hd s = CHR ''-'' \<or> hd s = CHR ''+'') then tl s else s)
      in if digitpart_ok u
         then Some (if neg then - int (digits_value u) else int (digits_value u))
         else None)"

definition parse_number :: "string \<Rightarrow> real option" where
  "parse_number u =
     (let not_e = (\<lambda>c. c \<noteq> CHR ''e'' \<and> c \<noteq> CHR ''E'');
          m = takeWhile not_e u;
          r = dropWhile not_e u;
          not_dot = (\<lambda>c. c \<noteq> CHR ''.'');
          ip = takeWhile not_dot m;
          d = dropWhile not_dot m;
          fp = (if d = [] then [] else tl d);
          mant_ok = (if d = [] then digitpart_ok ip
                     else ((ip = [] \<or> digitpart_ok ip) \<and> digitpart_ok fp)
                          \<or> (digitpart_ok ip \<and> fp = []));
          ex = (if r = [] then Some 0 else parse_exponent (tl r))
      in if mant_ok
         then (case ex of
                 None \<Rightarrow> None
               | Some e \<Rightarrow>
                   Some (real (digits_value (ip @ fp)) / 10 ^ length (filter is_digit fp)
                         * (if 0 \<le> e then 10 ^ nat e else 1 / 10 ^ nat (- e))))
         else None)"

definition py_float :: "string \<Rightarrow> exn + pyfloat" where
  "py_float s =
     (let t = py_strip s;
          neg = (t \<noteq> [] \<and> hd t = CHR ''-'');
          u = (if t \<noteq> [] \<and> (hd t = CHR ''-'' \<or> hd t = CHR ''+'') then tl t else t);
          l = map py_lower u
      in if l = ''inf'' \<or> l = ''infinity'' then Inr (if neg then NegInf else PosInf)
         else if l = ''nan'' then Inr NaN
         else (case parse_number u of
                 None \<Rightarrow> Inl ValueError
               | Some v \<Rightarrow>
                   if 2 ^ 1024 - 2 ^ 970 \<le> v then Inr (if neg then NegInf else PosInf)
                   else Inr (Finite (if neg then - v else v))))"

text \<open>\<open>int(x)\<close> of a finite float truncates towards zero.\<close>

definition py_trunc :: "real \<Rightarrow> int" where
  "py_trunc x = (if 0 \<le> x then \<lfloor>x\<rfloor> else \<lceil>x\<rceil>)"

section \<open>The NMEA receiver: \<open>read_from_port\<close>\<close>

text \<open>
  The body of the two \<open>try\<close> blocks. Both run the same statements on four fields of the
  sentence: \<open>float\<close> of the two coordinate fields, \<open>int(lat / 100)\<close> and
  \<open>int(lon / 100)\<close> (which raise \<open>ValueError\<close> on a NaN and \<open>OverflowError\<close> on an
  infinity), minutes, decimal degrees, and the sign from the hemisphere fields. The
  result is the pair of arguments of \<open>callback(longitude, latitude)\<close>.
\<close>

definition try_decode ::
  "string \<Rightarrow> string \<Rightarrow> string \<Rightarrow> string \<Rightarrow> exn + (real \<times> real)" where
  "try_decode lat_field lat_hemi lon_field lon_hemi =
     (case py_float lat_field of
        Inl e \<Rightarrow> Inl e
      | Inr lat \<Rightarrow>
     (case py_float lon_field of
        Inl e \<Rightarrow> Inl e
      | Inr lon \<Rightarrow>
     (case lat of
        NaN \<Rightarrow> Inl ValueError
      | PosInf \<Rightarrow> Inl OverflowError
      | NegInf \<Rightarrow> Inl OverflowError
      | Finite a \<Rightarrow>
     (case lon of
        NaN \<Rightarrow> Inl ValueError
      | PosInf \<Rightarrow> Inl OverflowError
      | NegInf \<Rightarrow> Inl OverflowError
      | Finite b \<Rightarrow>
          (let lat_deg = py_trunc (a / 100);
               lon_deg = py_trunc (b / 100);
               lat_min = a - of_int lat_deg * 100;
               lon_min = b - of_int lon_deg * 100;
               latitude = of_int lat_deg + lat_min / 60;
               longitude = of_int lon_deg + lon_min / 60;
               latitude = (if lat_hemi = ''S'' then - latitude else latitude);
               longitude = (if lon_hemi = ''W'' then - longitude else longitude)
           in Inr (longitude, latitude))))))"

text \<open>
  What one line does to the read loop: the loop goes on (\<open>Continue\<close>), the callback is
  called with a fix and the loop is left (\<open>Report\<close>), or an exception leaves the loop
  for the outer handlers (\<open>Propagate\<close>). \<open>except ValueError\<close> catches that exception
  only.
\<close>

datatype line_result = Continue | Report real real | Propagate exn

definition except_ValueError :: "exn + (real \<times> real) \<Rightarrow> line_result" where
  "except_ValueError r =
     (case r of
        Inr (longitude, latitude) \<Rightarrow> Report longitude latitude
      | Inl ValueError \<Rightarrow> Continue
      | Inl e \<Rightarrow> Propagate e)"

definition process_line :: "string \<Rightarrow> line_result" where
  "process_line line =
     (if startswith line ''$GNGGA'' \<or> startswith line ''$GPGGA'' then
        (let parts = py_split CHR '','' line
         in if length parts > 5 \<and> parts ! 2 \<noteq> [] \<and> parts ! 4 \<noteq> []
            then except_ValueError (try_decode (parts ! 2) (parts ! 3) (parts ! 4) (parts ! 5))
            else Continue)
      else if startswith line ''$GNRMC'' \<or> startswith line ''$GPRMC'' then
        (let parts = py_split CHR '','' line
         in if length parts > 6 \<and> parts ! 3 \<noteq> [] \<and> parts ! 5 \<noteq> []
            then except_ValueError (try_decode (parts ! 3) (parts ! 4) (parts ! 5) (parts ! 6))
            else Continue)
      else Continue)"

text \<open>
  The serial port. \<open>opens\<close> says whether \<open>serial.Serial(port, ...)\<close> succeeds;
  \<open>readline\<close> gives the outcome of the \<open>i\<close>-th call of \<open>ser.readline()\<close>: the bytes
  read (none, or a part of a line, when the read timeout of five seconds ends the call)
  or a \<open>SerialException\<close>. The model is of one acquisition that holds
  \<open>serial_lock\<close>; the thread it runs on and the wait for the lock are left out, and
  the callback is taken not to raise.
\<close>

datatype read_event = RLine "char list" | RSerialException

record serial_port =
  opens :: bool
  readline :: "nat \<Rightarrow> read_event"

text \<open>
  The \<open>while True\<close> loop. Its value is the pair of arguments the callback is called
  with; \<open>None\<close> means that the loop never ends and the callback is never called. Both
  outer handlers call \<open>callback(None, None)\<close>.
\<close>

partial_function (option) read_loop ::
  "(nat \<Rightarrow> read_event) \<Rightarrow> nat \<Rightarrow> (pyval \<times> pyval) option" where
  "read_loop rd i =
     (case rd i of
        RSerialException \<Rightarrow> Some (PyNone, PyNone)
      | RLine bs \<Rightarrow>
          (let line = py_strip (decode_ascii_replace bs)
           in case process_line line of
                Report longitude latitude \<Rightarrow> Some (PyFloat longitude, PyFloat latitude)
              | Propagate e \<Rightarrow> Some (PyNone, PyNone)
              | Continue \<Rightarrow> read_loop rd (Suc i)))"

definition read_from_port :: "serial_port \<Rightarrow> (pyval \<times> pyval) option" where
  "read_from_port ser =
     (if \<not> opens ser then Some (PyNone, PyNone) else read_loop (readline ser) 0)"

section \<open>KML documents and the file system\<close>

text \<open>
  A KML document is its line style and its coordinate list; a pair \<open>(lon, lat)\<close> stands
  for the triplet \<open>"lon,lat,0"\<close>. The file system maps a path to the document written
  there. \<open>open(filename, 'wb')\<close> and \<open>write\<close> are taken to succeed.
\<close>

record kml_doc =
  color :: string
  width :: int
  coordinates :: "(real \<times> real) list"

type_synonym filesystem = "string \<Rightarrow> kml_doc option"

definition generate_kml ::
  "real \<Rightarrow> real \<Rightarrow> real \<Rightarrow> real \<Rightarrow> real \<Rightarrow> string \<Rightarrow> string \<Rightarrow> int \<Rightarrow> filesystem
     \<Rightarrow> exn option \<times> filesystem" where
  "generate_kml longitude1 latitude1 longitude2 latitude2 length_m filename line_color
       line_width fs =
     (let earth_radius = 6378137;
          direction_longitude = longitude2 - longitude1;
          direction_latitude = latitude2 - latitude1;
          magnitude = sqrt (direction_longitude ^ 2 + direction_latitude ^ 2)
      in if magnitude = 0 then (Some ValueError, fs)
         else
           (let direction_longitude = direction_longitude / magnitude;
                direction_latitude = direction_latitude / magnitude
            in if earth_radius * cos (pi * latitude2 / 180) = 0
               then (Some ZeroDivisionError, fs)
               else
                 (let delta_longitude =
                        (length_m / (earth_radius * cos (pi * latitude2 / 180))) * (180 / pi);
                      delta_latitude = (length_m / earth_radius) * (180 / pi);
                      end_longitude = longitude2 + direction_longitude * delta_longitude;
                      end_latitude = latitude2 + direction_latitude * delta_latitude;
                      kml = \<lparr>color = line_color, width = line_width,
                             coordinates = [(longitude1, latitude1), (longitude2, latitude2),
                                            (end_longitude, end_latitude)]\<rparr>
                  in (None, fs(filename \<mapsto> kml)))))"


section \<open>File names\<close>

text \<open>\<open>os.path.join\<close> of two components, with POSIX separators.\<close>

definition path_join :: "string \<Rightarrow> string \<Rightarrow> string" where
  "path_join a b =
     (if startswith b ''/'' then b
      else if a = [] \<or> last a = CHR ''/'' then a @ b
      else a @ ''/'' @ b)"

text \<open>
  The loop of \<open>get_next_filename\<close>; \<open>os.path.exists\<close> is the test whether the file
  system holds a file at the path. \<open>None\<close> means that the loop never ends.
\<close>

partial_function (option) get_next_filename_loop ::
  "string \<Rightarrow> string \<Rightarrow> string \<Rightarrow> filesystem \<Rightarrow> nat \<Rightarrow> string option" where
  "get_next_filename_loop directory base_name extension fs counter =
     (let filename =
            path_join directory (base_name @ '' '' @ str_nat counter @ ''.'' @ extension)
      in if fs filename = None then Some filename
         else get_next_filename_loop directory base_name extension fs (counter + 1))"

definition get_next_filename ::
  "string \<Rightarrow> string \<Rightarrow> string \<Rightarrow> filesystem \<Rightarrow> string option" where
  "get_next_filename directory base_name extension fs =
     get_next_filename_loop directory base_name extension fs 1"

section \<open>The bearing: \<open>calculate_angle\<close>\<close>

text \<open>
  \<open>math.atan2(y, x)\<close> is the angle of the point \<open>(x, y)\<close> in \<open>(-pi, pi]\<close>, and 0 at the
  origin; \<open>math.degrees\<close> multiplies by \<open>180 / pi\<close>; \<open>x % y\<close> on floats with a positive
  \<open>y\<close> is \<open>x - y * floor(x / y)\<close>.
\<close>

definition py_atan2 :: "real \<Rightarrow> real \<Rightarrow> real" where
  "py_atan2 y x =
     (if 0 < x then arctan (y / x)
      else if x < 0 then (if 0 \<le> y then arctan (y / x) + pi else arctan (y / x) - pi)
      else if 0 < y then pi / 2
      else if y < 0 then - (pi / 2)
      else 0)"

definition math_degrees :: "real \<Rightarrow> real" where
  "math_degrees x = x * (180 / pi)"

definition py_mod :: "real \<Rightarrow> real \<Rightarrow> real" where
  "py_mod x y = x - y * of_int \<lfloor>x / y\<rfloor>"

definition calculate_angle :: "real \<Rightarrow> real \<Rightarrow> real \<Rightarrow> real \<Rightarrow> real" where
  "calculate_angle longitude1 latitude1 longitude2 latitude2 =
     (let delta_lon = longitude2 - longitude1;
          delta_lat = latitude2 - latitude1;
          angle = math_degrees (py_atan2 delta_lon delta_lat)
      in py_mod (angle + 360) 360)"

section \<open>The callbacks of the user interface\<close>

text \<open>
  The part of the page the callbacks write: the four coordinate fields, the two status
  labels, the two error lines, and the dictionary \<open>gps_data\<close> of
  \<open>load_both_gps_and_generate\<close>. A field holds typed text or \<open>str(x)\<close> of a callback
  argument.
\<close>

datatype field_text = Typed string | StrOf pyval

record page =
  longitude1 :: field_text
  latitude1 :: field_text
  longitude2 :: field_text
  latitude2 :: field_text
  gps_status1 :: string
  gps_status2 :: string
  error_display_1 :: string
  error_display_2 :: string
  gps_data_point1 :: "(pyval \<times> pyval) option"
  gps_data_point2 :: "(pyval \<times> pyval) option"

definition show_error :: "string \<Rightarrow> page \<Rightarrow> page" where
  "show_error message s =
     s\<lparr>error_display_2 := error_display_1 s, error_display_1 := message\<rparr>"

text \<open>
  \<open>gps_callback\<close> of \<open>load_gps(point, callback)\<close>; \<open>status_label\<close> is the first status
  label when \<open>point == 1\<close> and the second otherwise.
\<close>

definition gps_callback ::
  "nat \<Rightarrow> (pyval \<Rightarrow> pyval \<Rightarrow> page \<Rightarrow> page) \<Rightarrow> pyval \<Rightarrow> pyval \<Rightarrow> page \<Rightarrow> page" where
  "gps_callback point callback lon lat s =
     callback lon lat
       (if truthy lon \<and> truthy lat then
          (if point = 1
           then s\<lparr>longitude1 := StrOf lon, latitude1 := StrOf lat,
                  gps_status1 := ''GPS Status Point 1: Connected''\<rparr>
           else s\<lparr>longitude2 := StrOf lon, latitude2 := StrOf lat,
                  gps_status2 := ''GPS Status Point 2: Connected''\<rparr>)
        else
          show_error (''Failed to load GPS data for Point '' @ str_nat point @ ''.'')
            (if point = 1
             then s\<lparr>gps_status1 := ''GPS Status Point '' @ str_nat point @ '': Error''\<rparr>
             else s\<lparr>gps_status2 := ''GPS Status Point '' @ str_nat point @ '': Error''\<rparr>))"

text \<open>
  The callbacks of the two-point workflow. \<open>generate\<close> stands for what
  \<open>on_both_loaded\<close> runs when the pair is complete: the compass update and the
  generation of the KML file.
\<close>

definition on_both_loaded :: "(page \<Rightarrow> page) \<Rightarrow> page \<Rightarrow> page" where
  "on_both_loaded generate s =
     (if gps_data_point1 s \<noteq> None \<and> gps_data_point2 s \<noteq> None then generate s else s)"

definition point1_callback :: "(page \<Rightarrow> page) \<Rightarrow> pyval \<Rightarrow> pyval \<Rightarrow> page \<Rightarrow> page" where
  "point1_callback generate lon lat s =
     (if truthy lon \<and> truthy lat
      then on_both_loaded generate (s\<lparr>gps_data_point1 := Some (lon, lat)\<rparr>)
      else s)"

definition point2_callback :: "(page \<Rightarrow> page) \<Rightarrow> pyval \<Rightarrow> pyval \<Rightarrow> page \<Rightarrow> page" where
  "point2_callback generate lon lat s =
     (if truthy lon \<and> truthy lat
      then on_both_loaded generate (s\<lparr>gps_data_point2 := Some (lon, lat)\<rparr>)
      else s)"

section \<open>Predicates used in the statements\<close>

text \<open>
  A call of \<open>readline\<close> is quiet when it raises nothing and its line neither reports a
  fix nor raises: a timeout that read nothing, a line that is not recognised, a
  sentence that is skipped.
\<close>

definition quiet :: "read_event \<Rightarrow> bool" where
  "quiet ev =
     (case ev of
        RSerialException \<Rightarrow> False
      | RLine bs \<Rightarrow> process_line (py_strip (decode_ascii_replace bs)) = Continue)"








text \<open>The path that \<open>get_next_filename\<close> tries for the counter \<open>n\<close>.\<close>

definition candidate :: "string \<Rightarrow> string \<Rightarrow> string \<Rightarrow> nat \<Rightarrow> string" where
  "candidate directory base_name extension n =
     path_join directory (base_name @ '' '' @ str_nat n @ ''.'' @ extension)"

text \<open>
  The two-point workflow: each acquisition thread ends by calling the \<open>gps_callback\<close>
  of its point, which \<open>load_gps(1, point1_callback)\<close> and
  \<open>load_gps(2, point2_callback)\<close> have set up. \<open>deliver\<close> applies the results in the
  order in which they arrive. \<open>failed_page\<close> is the page as a failed acquisition leaves
  it.
\<close>

definition deliver ::
  "(page \<Rightarrow> page) \<Rightarrow> (nat \<times> pyval \<times> pyval) list \<Rightarrow> page \<Rightarrow> page" where
  "deliver generate results s =
     foldl (\<lambda>s (point, lon, lat).
              gps_callback point
                (if point = 1 then point1_callback generate else point2_callback generate)
                lon lat s)
       s results"

definition failed_page :: "nat \<Rightarrow> page \<Rightarrow> page" where
  "failed_page point s = gps_callback point (\<lambda>lon lat s. s) PyNone PyNone s"

section \<open>Evaluation rules\<close>

lemmas float_simps = py_float_def parse_number_def parse_exponent_def digits_value_def
  is_digit_def py_lower_def py_strip_def py_isspace_def

lemmas line_simps = process_line_def startswith_def except_ValueError_def try_decode_def
  py_trunc_def

section \<open>The read loop ends only on a fix or an exception\<close>

lemma read_loop_Some_not_quiet:
  assumes ret: "read_loop rd i = Some r"
  shows "\<exists>j\<ge>i. \<not> quiet (rd j)"
proof (rule read_loop.raw_induct [where P = "\<lambda>rd i r. \<exists>j\<ge>i. \<not> quiet (rd j)", OF _ ret])
  fix f rd i r
  assume IH: "\<And>rd i r. f rd i = Some r \<Longrightarrow> \<exists>j\<ge>i. \<not> quiet (rd j)"
    and eq: "(case rd i of
        RSerialException \<Rightarrow> Some (PyNone, PyNone)
      | RLine bs \<Rightarrow>
          (let line = py_strip (decode_ascii_replace bs)
           in case process_line line of
                Report longitude latitude \<Rightarrow> Some (PyFloat longitude, PyFloat latitude)
              | Propagate e \<Rightarrow> Some (PyNone, PyNone)
              | Continue \<Rightarrow> f rd (Suc i))) = Some r"
  show "\<exists>j\<ge>i. \<not> quiet (rd j)"
  proof (cases "quiet (rd i)")
    case True
    then obtain bs where bs: "rd i = RLine bs"
      and c: "process_line (py_strip (decode_ascii_replace bs)) = Continue"
      by (cases "rd i") (simp_all add: quiet_def)
    from eq bs c have "f rd (Suc i) = Some r" by simp
    from IH [OF this] obtain j where "Suc i \<le> j" and "\<not> quiet (rd j)" by blast
    then show ?thesis by (intro exI [of _ j]) simp
  next
    case False
    then show ?thesis by blast
  qed
qed

lemma read_loop_quiet_forever:
  assumes "\<forall>j\<ge>i. quiet (rd j)"
  shows "read_loop rd i = None"
proof (cases "read_loop rd i")
  case None
  then show ?thesis .
next
  case (Some r)
  from read_loop_Some_not_quiet [OF this] assms show ?thesis by blast
qed

lemma process_line_empty: "process_line [] = Continue"
  by (simp add: line_simps)

lemma quiet_timeout: "quiet (RLine [])"
  by (simp add: quiet_def py_strip_def decode_ascii_replace_def process_line_empty)

text \<open>
  C1. The claim: when no line with a valid GGA or RMC sentence ever arrives, the
  acquisition ends in a timeout failure once the read timeout has elapsed. The code
  does otherwise: on a port that opens and whose every \<open>readline\<close> is quiet (it times
  out with nothing read, or returns a line that is skipped), the loop never ends and
  the callback is never called, neither with a fix nor with \<open>(None, None)\<close>.
\<close>

theorem read_from_port_never_times_out:
  assumes "opens ser" and "\<forall>j. quiet (readline ser j)"
  shows "read_from_port ser = None"
proof -
  from assms(2) have "read_loop (readline ser) 0 = None"
    by (intro read_loop_quiet_forever) simp
  with assms(1) show ?thesis by (simp add: read_from_port_def)
qed

theorem read_from_port_silent_device:
  "opens \<lparr>opens = True, readline = (\<lambda>i. RLine [])\<rparr>
   \<and> quiet (RLine [])
   \<and> read_from_port \<lparr>opens = True, readline = (\<lambda>i. RLine [])\<rparr> = None"
  using read_from_port_never_times_out [of "\<lparr>opens = True, readline = (\<lambda>i. RLine [])\<rparr>"]
  by (simp add: quiet_timeout)

section \<open>Malformed sentences\<close>







lemma read_loop_Continue:
  assumes "rd i = RLine bs"
    and "process_line (py_strip (decode_ascii_replace bs)) = Continue"
  shows "read_loop rd i = read_loop rd (Suc i)"
  by (subst read_loop.simps) (simp add: assms)





text \<open>
  A coordinate field that \<open>float\<close> reads as an infinity is not malformed in this
  sense, and it is not skipped: \<open>int\<close> raises \<open>OverflowError\<close>, which
  \<open>except ValueError\<close> does not catch, and the attempt ends with
  \<open>callback(None, None)\<close>.
\<close>

lemma infinite_field_ends_attempt:
  "process_line ''$GPGGA,123519,inf,N,01131.000,E,1,08,0.9,545.4,M,46.9,M,,*47''
     = Propagate OverflowError
   \<and> read_from_port \<lparr>opens = True, readline = (\<lambda>i.
         RLine (''$GPGGA,123519,inf,N,01131.000,E,1,08,0.9,545.4,M,46.9,M,,*47''
                @ [CHR 0x0D, CHR 0x0A]))\<rparr>
     = Some (PyNone, PyNone)"
  by (simp add: read_from_port_def read_loop.simps line_simps float_simps
      decode_ascii_replace_def)

text \<open>After a skipped sentence the next valid one is reported.\<close>

lemma skipped_then_fix:
  "read_from_port \<lparr>opens = True, readline = (\<lambda>i. if i = 0
       then RLine (''$GPGGA,,,,,,,,,,,,,,*00'' @ [CHR 0x0D, CHR 0x0A])
       else RLine (''$GPGGA,123519,4807.038,N,01131.000,E,1,08,0.9,545.4,M,46.9,M,,*47''
                   @ [CHR 0x0D, CHR 0x0A]))\<rparr>
   = Some (PyFloat (11 + 31 / 60), PyFloat (48 + 7.038 / 60))"
  by (simp add: read_from_port_def read_loop.simps line_simps float_simps
      decode_ascii_replace_def)

section \<open>Decoded coordinates\<close>












section \<open>The line: coincident points\<close>


lemma generate_kml_coincident:
  "generate_kml lon lat lon lat length_m filename line_color line_width fs
     = (Some ValueError, fs)"
  by (simp add: generate_kml_def)


lemma generate_kml_unit_step:
  "generate_kml 0 0 1 0 0 ''f'' ''c'' 2 Map.empty
     = (None, [''f'' \<mapsto> \<lparr>color = ''c'', width = 2,
                              coordinates = [(0, 0), (1, 0), (1, 0)]\<rparr>])"
  by (simp add: generate_kml_def Let_def)



text \<open>
  C10. When the two points coincide, \<open>generate_kml\<close> raises before the file is opened:
  the file system after the call is the file system before it, so no file is created
  and a file that exists at the target path keeps its content.
\<close>

theorem coincident_points_leave_files:
  assumes "lon1 = lon2" and "lat1 = lat2"
  shows "generate_kml lon1 lat1 lon2 lat2 length_m filename line_color line_width fs
           = (Some ValueError, fs)"
  using assms by (simp add: generate_kml_coincident)

theorem coincident_points_leave_files_example:
  "generate_kml 11.5 48 11.5 48 50000 ''direccional 1.kml'' ''ff0000ff'' 2
     [''direccional 1.kml'' \<mapsto> \<lparr>color = ''ff00ff00'', width = 3, coordinates = []\<rparr>]
   = (Some ValueError,
      [''direccional 1.kml'' \<mapsto> \<lparr>color = ''ff00ff00'', width = 3, coordinates = []\<rparr>])"
  using coincident_points_leave_files [of "11.5" "11.5" 48 48 50000 "''direccional 1.kml''"
      "''ff0000ff''" 2
      "[''direccional 1.kml'' \<mapsto> \<lparr>color = ''ff00ff00'', width = 3, coordinates = []\<rparr>]"]
  by simp

section \<open>The circle: the radius is not validated\<close>




section \<open>The bearing\<close>





lemma calculate_angle_east: "calculate_angle 0 0 1 0 = 90"
  by (simp add: calculate_angle_def py_atan2_def math_degrees_def py_mod_def)

lemma calculate_angle_west: "calculate_angle 0 0 (- 1) 0 = 270"
  by (simp add: calculate_angle_def py_atan2_def math_degrees_def py_mod_def)

lemma calculate_angle_south: "calculate_angle 0 0 0 (- 1) = 180"
  by (simp add: calculate_angle_def py_atan2_def math_degrees_def py_mod_def)


section \<open>The next free file name\<close>

lemma str_nat_nonempty: "str_nat n \<noteq> []"
  by (subst str_nat.simps) simp

lemma digit_char_inj:
  assumes "a < 10" and "b < 10" and "''0123456789'' ! a = ''0123456789'' ! b"
  shows "a = b"
proof -
  have "distinct ''0123456789''" by simp
  moreover from assms have "a < length ''0123456789''" "b < length ''0123456789''"
    by simp_all
  ultimately show ?thesis using assms(3) by (simp only: nth_eq_iff_index_eq)
qed

lemma str_nat_small: "n < 10 \<Longrightarrow> str_nat n = [''0123456789'' ! n]"
  by (subst str_nat.simps) simp

lemma str_nat_large:
  "\<not> n < 10 \<Longrightarrow> str_nat n = str_nat (n div 10) @ [''0123456789'' ! (n mod 10)]"
  by (subst str_nat.simps) simp

lemma str_nat_large_length: "\<not> n < 10 \<Longrightarrow> 2 \<le> length (str_nat n)"
proof -
  assume "\<not> n < 10"
  then have "length (str_nat n) = Suc (length (str_nat (n div 10)))"
    by (simp add: str_nat_large)
  moreover have "1 \<le> length (str_nat (n div 10))"
    using str_nat_nonempty [of "n div 10"] by (simp add: Suc_le_eq)
  ultimately show ?thesis by simp
qed

lemma str_nat_inj: "str_nat n = str_nat m \<Longrightarrow> n = m"
proof (induction n arbitrary: m rule: str_nat.induct)
  case (1 n)
  show ?case
  proof (cases "n < 10")
    case True
    note n = this
    show ?thesis
    proof (cases "m < 10")
      case True
      with n "1.prems" show ?thesis
        by (simp add: str_nat_small digit_char_inj)
    next
      case False
      from "1.prems" have "length (str_nat m) = length (str_nat n)" by simp
      with n have "length (str_nat m) = 1" by (simp add: str_nat_small)
      with str_nat_large_length [OF False] show ?thesis by simp
    qed
  next
    case False
    note n = this
    show ?thesis
    proof (cases "m < 10")
      case True
      from "1.prems" have "length (str_nat n) = length (str_nat m)" by simp
      with True have "length (str_nat n) = 1" by (simp add: str_nat_small)
      with str_nat_large_length [OF n] show ?thesis by simp
    next
      case False
      from n False "1.prems"
      have eq: "str_nat (n div 10) = str_nat (m div 10)"
        and d: "''0123456789'' ! (n mod 10) = ''0123456789'' ! (m mod 10)"
        by (simp_all add: str_nat_large)
      from "1.IH" [OF n eq] have q: "n div 10 = m div 10" .
      from d have r: "n mod 10 = m mod 10"
        by (intro digit_char_inj) simp_all
      from q r show ?thesis
        by (metis div_mult_mod_eq)
    qed
  qed
qed

lemma startswith_slash_name:
  "startswith (base_name @ '' '' @ r) ''/'' = startswith (base_name @ '' '' @ r') ''/''"
  by (cases base_name) (simp_all add: startswith_def)

lemma candidate_inj:
  assumes "candidate directory base_name extension n = candidate directory base_name extension m"
  shows "n = m"
proof -
  let ?x = "base_name @ '' '' @ str_nat n @ ''.'' @ extension"
  let ?y = "base_name @ '' '' @ str_nat m @ ''.'' @ extension"
  have s: "startswith ?x ''/'' = startswith ?y ''/''"
    by (rule startswith_slash_name)
  from assms have "path_join directory ?x = path_join directory ?y"
    by (simp add: candidate_def)
  with s have "?x = ?y"
    by (simp add: path_join_def split: if_splits)
  then have "str_nat n = str_nat m" by simp
  then show ?thesis by (rule str_nat_inj)
qed

lemma free_candidate_exists:
  assumes "finite (dom fs)"
  shows "\<exists>n\<ge>1. fs (candidate directory base_name extension n) = None"
proof (rule ccontr)
  assume "\<not> ?thesis"
  then have "candidate directory base_name extension ` {1..} \<subseteq> dom fs"
    by auto
  with assms have "finite (candidate directory base_name extension ` {1..})"
    by (rule rev_finite_subset)
  moreover have "inj_on (candidate directory base_name extension) {1..}"
    by (rule inj_onI) (rule candidate_inj)
  ultimately have "finite {1::nat..}"
    by (simp add: finite_image_iff)
  then show False by (simp add: infinite_Ici)
qed

lemma loop_free:
  "fs (candidate directory base_name extension c) = None \<Longrightarrow>
   get_next_filename_loop directory base_name extension fs c
     = Some (candidate directory base_name extension c)"
  by (subst get_next_filename_loop.simps) (simp add: candidate_def)

lemma loop_taken:
  "fs (candidate directory base_name extension c) \<noteq> None \<Longrightarrow>
   get_next_filename_loop directory base_name extension fs c
     = get_next_filename_loop directory base_name extension fs (Suc c)"
  by (subst get_next_filename_loop.simps) (auto simp: candidate_def)

lemma loop_reaches:
  assumes "c \<le> n" and "fs (candidate directory base_name extension n) = None"
    and "\<forall>m. c \<le> m \<and> m < n \<longrightarrow> fs (candidate directory base_name extension m) \<noteq> None"
  shows "get_next_filename_loop directory base_name extension fs c
           = Some (candidate directory base_name extension n)"
  using assms
proof (induction "n - c" arbitrary: c)
  case 0
  then have "c = n" by simp
  with "0.prems"(2) show ?case by (simp add: loop_free)
next
  case (Suc k)
  then have lt: "c < n" by simp
  with Suc.prems(3) have "fs (candidate directory base_name extension c) \<noteq> None"
    by simp
  then have "get_next_filename_loop directory base_name extension fs c
      = get_next_filename_loop directory base_name extension fs (Suc c)"
    by (rule loop_taken)
  moreover have "get_next_filename_loop directory base_name extension fs (Suc c)
      = Some (candidate directory base_name extension n)"
  proof (rule Suc.hyps(1))
    from Suc.hyps(2) show "k = n - Suc c" by simp
    from lt show "Suc c \<le> n" by simp
    from Suc.prems(2) show "fs (candidate directory base_name extension n) = None" .
    from Suc.prems(3)
    show "\<forall>m. Suc c \<le> m \<and> m < n \<longrightarrow> fs (candidate directory base_name extension m) \<noteq> None"
      by simp
  qed
  ultimately show ?case by simp
qed

lemma get_next_filename_least_free:
  assumes "\<exists>n\<ge>1. fs (candidate directory base_name extension n) = None"
  shows "get_next_filename directory base_name extension fs
           = Some (candidate directory base_name extension
                (LEAST n. 1 \<le> n \<and> fs (candidate directory base_name extension n) = None))"
proof -
  let ?P = "\<lambda>n. 1 \<le> n \<and> fs (candidate directory base_name extension n) = None"
  from assms have ex: "\<exists>n. ?P n" by blast
  then have l: "?P (Least ?P)" by (rule LeastI_ex)
  have below: "\<forall>m. 1 \<le> m \<and> m < Least ?P \<longrightarrow>
      fs (candidate directory base_name extension m) \<noteq> None"
  proof (intro allI impI)
    fix m
    assume m: "1 \<le> m \<and> m < Least ?P"
    then have "m < Least ?P" by simp
    then have "\<not> ?P m" by (rule not_less_Least)
    with m show "fs (candidate directory base_name extension m) \<noteq> None" by simp
  qed
  from l have l1: "1 \<le> Least ?P"
    and l2: "fs (candidate directory base_name extension (Least ?P)) = None"
    by simp_all
  show ?thesis
    unfolding get_next_filename_def
    by (rule loop_reaches [OF l1 l2 below])
qed

text \<open>
  C9. On a file system that holds finitely many files, \<open>get_next_filename\<close> returns,
  and its result is the path \<open>os.path.join(directory, "{base_name} {n}.{extension}")\<close>
  for the least \<open>n\<close> from 1 on at which no file exists.
\<close>

theorem get_next_filename_smallest:
  assumes "finite (dom fs)"
  shows "get_next_filename directory base_name extension fs
           = Some (candidate directory base_name extension
                (LEAST n. 1 \<le> n \<and> fs (candidate directory base_name extension n) = None))"
  by (rule get_next_filename_least_free) (rule free_candidate_exists [OF assms])

lemma line_candidates:
  "candidate ''/out'' ''line'' ''kml'' 1 = ''/out/line 1.kml''"
  "candidate ''/out'' ''line'' ''kml'' 2 = ''/out/line 2.kml''"
  "candidate ''/out'' ''line'' ''kml'' 3 = ''/out/line 3.kml''"
  "candidate ''/out'' ''line'' ''kml'' (Suc 0) = ''/out/line 1.kml''"
  by (simp_all add: candidate_def path_join_def startswith_def str_nat_small)

text \<open>With \<open>line 1.kml\<close> and \<open>line 2.kml\<close> present the result is \<open>line 3.kml\<close>.\<close>

theorem get_next_filename_line_3:
  "get_next_filename ''/out'' ''line'' ''kml''
     [''/out/line 1.kml'' \<mapsto> \<lparr>color = ''ff0000ff'', width = 2, coordinates = []\<rparr>,
      ''/out/line 2.kml'' \<mapsto> \<lparr>color = ''ff0000ff'', width = 2, coordinates = []\<rparr>]
   = Some ''/out/line 3.kml''"
proof -
  let ?fs = "[''/out/line 1.kml'' \<mapsto> \<lparr>color = ''ff0000ff'', width = 2, coordinates = []\<rparr>,
      ''/out/line 2.kml'' \<mapsto> \<lparr>color = ''ff0000ff'', width = 2, coordinates = []\<rparr>]"
  let ?P = "\<lambda>n. 1 \<le> n \<and> ?fs (candidate ''/out'' ''line'' ''kml'' n) = None"
  have least: "Least ?P = 3"
  proof (rule Least_equality)
    show "?P 3" by (simp add: line_candidates)
  next
    fix y
    assume y: "?P y"
    show "3 \<le> y"
    proof (rule ccontr)
      assume "\<not> 3 \<le> y"
      with y have "y = 1 \<or> y = 2" by arith
      with y show False by (auto simp: line_candidates)
    qed
  qed
  have "finite (dom ?fs)" by simp
  from get_next_filename_smallest [OF this, of "''/out''" "''line''" "''kml''"] least
  show ?thesis by (simp add: line_candidates)
qed

section \<open>A fix with a zero coordinate\<close>

lemma truthy_zero: "lon = 0 \<or> lat = 0 \<Longrightarrow> \<not> (truthy (PyFloat lon) \<and> truthy (PyFloat lat))"
  by (auto simp: truthy_def)

lemma truthy_None: "\<not> (truthy PyNone \<and> truthy v)"
  by (simp add: truthy_def)

lemma gps_callback_untruthy:
  assumes "\<not> (truthy lon \<and> truthy lat)"
  shows "gps_callback point callback lon lat s = callback lon lat (failed_page point s)"
  using assms by (auto simp: gps_callback_def failed_page_def truthy_def)

lemma point1_callback_untruthy:
  "\<not> (truthy lon \<and> truthy lat) \<Longrightarrow> point1_callback generate lon lat s = s"
  by (auto simp: point1_callback_def)

lemma point2_callback_untruthy:
  "\<not> (truthy lon \<and> truthy lat) \<Longrightarrow> point2_callback generate lon lat s = s"
  by (auto simp: point2_callback_def)

lemma failed_page_fields:
  "longitude1 (failed_page point s) = longitude1 s"
  "latitude1 (failed_page point s) = latitude1 s"
  "longitude2 (failed_page point s) = longitude2 s"
  "latitude2 (failed_page point s) = latitude2 s"
  "gps_data_point1 (failed_page point s) = gps_data_point1 s"
  "gps_data_point2 (failed_page point s) = gps_data_point2 s"
  "error_display_1 (failed_page point s) = ''Failed to load GPS data for Point '' @ str_nat point @ ''.''"
  "(if point = 1 then gps_status1 (failed_page point s) else gps_status2 (failed_page point s))
     = ''GPS Status Point '' @ str_nat point @ '': Error''"
  by (simp_all add: failed_page_def gps_callback_def show_error_def truthy_def)

lemma zero_fix_like_failure:
  assumes "lon = 0 \<or> lat = 0"
  shows "gps_callback point (point1_callback generate) (PyFloat lon) (PyFloat lat) s
           = failed_page point s"
    and "gps_callback point (point2_callback generate) (PyFloat lon) (PyFloat lat) s
           = failed_page point s"
    and "gps_callback point (point1_callback generate) PyNone PyNone s = failed_page point s"
    and "gps_callback point (point2_callback generate) PyNone PyNone s = failed_page point s"
  using truthy_zero [OF assms] truthy_None [of PyNone]
  by (simp_all add: gps_callback_untruthy point1_callback_untruthy point2_callback_untruthy)

text \<open>While no result for the first point passes the test, nothing is generated.\<close>

lemma deliver_point1_missing:
  assumes "gps_data_point1 s = None"
    and "\<forall>r \<in> set results. fst r = 1 \<longrightarrow> \<not> (truthy (fst (snd r)) \<and> truthy (snd (snd r)))"
  shows "deliver generate results s = deliver (\<lambda>s. s) results s
         \<and> gps_data_point1 (deliver generate results s) = None"
  using assms
proof (induction results arbitrary: s rule: rev_induct)
  case Nil
  then show ?case by (simp add: deliver_def)
next
  case (snoc r results)
  obtain point lon lat where r: "r = (point, lon, lat)" by (cases r) auto
  let ?s = "deliver generate results s"
  from snoc.prems(2)
  have rest: "\<forall>r \<in> set results.
      fst r = 1 \<longrightarrow> \<not> (truthy (fst (snd r)) \<and> truthy (snd (snd r)))"
    by simp
  from snoc.IH [OF snoc.prems(1) rest]
  have IH: "?s = deliver (\<lambda>s. s) results s" "gps_data_point1 ?s = None"
    by blast+
  have step: "deliver g (results @ [r]) s
      = gps_callback point (if point = 1 then point1_callback g else point2_callback g)
          lon lat (deliver g results s)" for g
    by (simp add: deliver_def r)
  show ?case
  proof (cases "truthy lon \<and> truthy lat")
    case False
    then show ?thesis
      using IH by (simp add: step gps_callback_untruthy point1_callback_untruthy
          point2_callback_untruthy failed_page_fields)
  next
    case True
    with snoc.prems(2) r have p: "point \<noteq> 1" by auto
    with True IH show ?thesis
      by (simp add: step gps_callback_def point2_callback_def on_both_loaded_def)
  qed
qed

text \<open>
  C5. A fix whose longitude or latitude is exactly 0 fails the test \<open>if lon and lat\<close>
  in \<open>gps_callback\<close> and in the callbacks of the two points. The page it leaves is
  the page of a failed acquisition, whether the callback is one of the two-point
  workflow or one that ignores its arguments: the four coordinate fields keep their
  values, the status label of the point says \<open>Error\<close>, and \<open>gps_data\<close> is unchanged.
  In the two-point workflow, started with no first point, such a fix for the first
  point never makes the pair complete: whatever the result for the second point and
  whichever arrives first, the generation is not run.
\<close>

theorem zero_coordinate_fix_is_a_failure:
  assumes "lon = 0 \<or> lat = 0"
  shows "gps_callback point (point1_callback generate) (PyFloat lon) (PyFloat lat) s
           = gps_callback point (point1_callback generate) PyNone PyNone s
       \<and> gps_callback point (point2_callback generate) (PyFloat lon) (PyFloat lat) s
           = gps_callback point (point2_callback generate) PyNone PyNone s
       \<and> gps_callback point (\<lambda>lon lat. update) (PyFloat lon) (PyFloat lat) s
           = gps_callback point (\<lambda>lon lat. update) PyNone PyNone s
       \<and> gps_callback point (point1_callback generate) (PyFloat lon) (PyFloat lat) s
           = failed_page point s
       \<and> longitude1 (failed_page point s) = longitude1 s
       \<and> latitude1 (failed_page point s) = latitude1 s
       \<and> longitude2 (failed_page point s) = longitude2 s
       \<and> latitude2 (failed_page point s) = latitude2 s
       \<and> (if point = 1 then gps_status1 (failed_page point s)
           else gps_status2 (failed_page point s))
          = ''GPS Status Point '' @ str_nat point @ '': Error''
       \<and> gps_data_point1 (failed_page point s) = gps_data_point1 s
       \<and> gps_data_point2 (failed_page point s) = gps_data_point2 s
       \<and> (gps_data_point1 s = None \<longrightarrow>
            deliver generate [(1, PyFloat lon, PyFloat lat), (2, lon2, lat2)] s
              = deliver (\<lambda>s. s) [(1, PyFloat lon, PyFloat lat), (2, lon2, lat2)] s
          \<and> deliver generate [(2, lon2, lat2), (1, PyFloat lon, PyFloat lat)] s
              = deliver (\<lambda>s. s) [(2, lon2, lat2), (1, PyFloat lon, PyFloat lat)] s)"
proof -
  have d: "gps_data_point1 s = None \<longrightarrow>
            deliver generate [(1, PyFloat lon, PyFloat lat), (2, lon2, lat2)] s
              = deliver (\<lambda>s. s) [(1, PyFloat lon, PyFloat lat), (2, lon2, lat2)] s
          \<and> deliver generate [(2, lon2, lat2), (1, PyFloat lon, PyFloat lat)] s
              = deliver (\<lambda>s. s) [(2, lon2, lat2), (1, PyFloat lon, PyFloat lat)] s"
    using truthy_zero [OF assms]
      deliver_point1_missing [of s "[(1, PyFloat lon, PyFloat lat), (2, lon2, lat2)]" generate]
      deliver_point1_missing [of s "[(2, lon2, lat2), (1, PyFloat lon, PyFloat lat)]" generate]
    by simp
  note z = zero_fix_like_failure [OF assms, of point generate s]
  have e1: "gps_callback point (point1_callback generate) (PyFloat lon) (PyFloat lat) s
      = gps_callback point (point1_callback generate) PyNone PyNone s"
    by (simp only: z)
  have e2: "gps_callback point (point2_callback generate) (PyFloat lon) (PyFloat lat) s
      = gps_callback point (point2_callback generate) PyNone PyNone s"
    by (simp only: z)
  have e3: "gps_callback point (\<lambda>lon lat. update) (PyFloat lon) (PyFloat lat) s
      = gps_callback point (\<lambda>lon lat. update) PyNone PyNone s"
    using truthy_zero [OF assms] truthy_None [of PyNone]
    by (simp add: gps_callback_untruthy)
  from e1 e2 e3 z(1) failed_page_fields(1-4) [of point s] failed_page_fields(8) [of point s]
    failed_page_fields(5,6) [of point s] d
  show ?thesis
    by - (intro conjI; assumption)
qed

lemma equator_sentence:
  "process_line ''$GPGGA,123519,0000.000,N,01131.000,E,1,08,0.9,545.4,M,46.9,M,,*47''
     = Report (11 + 31 / 60) 0"
  by (simp add: line_simps float_simps)

theorem equator_fix_is_a_failure:
  "process_line ''$GPGGA,123519,0000.000,N,01131.000,E,1,08,0.9,545.4,M,46.9,M,,*47''
     = Report (11 + 31 / 60) 0
   \<and> gps_callback 1 (point1_callback (\<lambda>s. s\<lparr>error_display_1 := ''generated''\<rparr>))
       (PyFloat (11 + 31 / 60)) (PyFloat 0)
       \<lparr>longitude1 = Typed [], latitude1 = Typed [], longitude2 = Typed [],
        latitude2 = Typed [], gps_status1 = ''GPS Status Point 1: Connecting...'',
        gps_status2 = ''GPS Status Point 2: Connecting...'', error_display_1 = [],
        error_display_2 = [], gps_data_point1 = None, gps_data_point2 = None\<rparr>
     = \<lparr>longitude1 = Typed [], latitude1 = Typed [], longitude2 = Typed [],
        latitude2 = Typed [], gps_status1 = ''GPS Status Point 1: Error'',
        gps_status2 = ''GPS Status Point 2: Connecting...'',
        error_display_1 = ''Failed to load GPS data for Point 1.'',
        error_display_2 = [], gps_data_point1 = None, gps_data_point2 = None\<rparr>
   \<and> gps_callback 1 (point1_callback (\<lambda>s. s\<lparr>error_display_1 := ''generated''\<rparr>))
       PyNone PyNone
       \<lparr>longitude1 = Typed [], latitude1 = Typed [], longitude2 = Typed [],
        latitude2 = Typed [], gps_status1 = ''GPS Status Point 1: Connecting...'',
        gps_status2 = ''GPS Status Point 2: Connecting...'', error_display_1 = [],
        error_display_2 = [], gps_data_point1 = None, gps_data_point2 = None\<rparr>
     = \<lparr>longitude1 = Typed [], latitude1 = Typed [], longitude2 = Typed [],
        latitude2 = Typed [], gps_status1 = ''GPS Status Point 1: Error'',
        gps_status2 = ''GPS Status Point 2: Connecting...'',
        error_display_1 = ''Failed to load GPS data for Point 1.'',
        error_display_2 = [], gps_data_point1 = None, gps_data_point2 = None\<rparr>"
  using zero_coordinate_fix_is_a_failure [of "11 + 31 / 60" 0 1
      "\<lambda>s. s\<lparr>error_display_1 := ''generated''\<rparr>"
      "\<lparr>longitude1 = Typed [], latitude1 = Typed [], longitude2 = Typed [],
        latitude2 = Typed [], gps_status1 = ''GPS Status Point 1: Connecting...'',
        gps_status2 = ''GPS Status Point 2: Connecting...'', error_display_1 = [],
        error_display_2 = [], gps_data_point1 = None, gps_data_point2 = None\<rparr>"
      "\<lambda>s. s" PyNone PyNone]
  by (simp add: equator_sentence gps_callback_def point1_callback_def show_error_def
      truthy_def str_nat_small)

section \<open>When the acquisition returns\<close>

text \<open>
  The loop returns exactly when some call of \<open>readline\<close> is not quiet: it reports a
  fix or raises. So the acquisition is total on every port that sooner or later sends
  a valid sentence or fails, and on no other port that opens.
\<close>

lemma read_loop_not_quiet:
  assumes "\<not> quiet (rd i)"
  shows "\<exists>r. read_loop rd i = Some r"
proof (cases "rd i")
  case RSerialException
  then show ?thesis by (subst read_loop.simps) simp
next
  case (RLine bs)
  with assms have "process_line (py_strip (decode_ascii_replace bs)) \<noteq> Continue"
    by (simp add: quiet_def)
  with RLine show ?thesis
    by (subst read_loop.simps)
      (cases "process_line (py_strip (decode_ascii_replace bs))", simp_all)
qed

lemma read_loop_quiet_step:
  assumes "quiet (rd i)"
  shows "read_loop rd i = read_loop rd (Suc i)"
proof -
  from assms obtain bs where "rd i = RLine bs"
    and "process_line (py_strip (decode_ascii_replace bs)) = Continue"
    by (cases "rd i") (simp_all add: quiet_def)
  then show ?thesis by (rule read_loop_Continue)
qed

lemma read_loop_returns:
  assumes "i \<le> j" and "\<not> quiet (rd j)"
  shows "\<exists>r. read_loop rd i = Some r"
  using assms
proof (induction "j - i" arbitrary: i)
  case 0
  then have "i = j" by simp
  with "0.prems"(2) have "\<not> quiet (rd i)" by simp
  then show ?case by (rule read_loop_not_quiet)
next
  case (Suc k)
  show ?case
  proof (cases "quiet (rd i)")
    case True
    from Suc.hyps(2) have "k = j - Suc i" and "Suc i \<le> j" by simp_all
    with Suc.hyps(1) Suc.prems(2) have "\<exists>r. read_loop rd (Suc i) = Some r" by blast
    moreover from True have "read_loop rd i = read_loop rd (Suc i)"
      by (rule read_loop_quiet_step)
    ultimately show ?thesis by simp
  next
    case False
    then show ?thesis by (rule read_loop_not_quiet)
  qed
qed

lemma read_loop_returns_iff:
  "(\<exists>r. read_loop rd i = Some r) \<longleftrightarrow> (\<exists>j\<ge>i. \<not> quiet (rd j))"
  using read_loop_Some_not_quiet [of rd i] read_loop_returns [of i _ rd]
  by blast

end
